theory Spec2Isabelle
  imports Complex_Main "HOL-Library.Sublist"
begin

section \<open>Python values shared by the scheduler and the habit tracker\<close>

text \<open>
  The exceptions that the modelled functions of \<^verbatim>\<open>calendar_integration.py\<close> and
  \<^verbatim>\<open>dashboard.py\<close> can raise. A function that can raise returns \<open>error + 'a\<close>,
  with \<open>Inl\<close> for the exception.
\<close>

datatype error =
    KeyError
  | IndexError
  | ValueError
  | TypeError
  | ZeroDivisionError
  | OverflowError
  | AttributeError
  | RequestError

definition ebind :: "error + 'a \<Rightarrow> ('a \<Rightarrow> error + 'b) \<Rightarrow> error + 'b" where
  \<comment> \<open>run \<open>m\<close>; an exception ends the computation, a value is passed on to \<open>f\<close>\<close>
  "ebind m f = (case m of Inl e \<Rightarrow> Inl e | Inr x \<Rightarrow> f x)"

text \<open>
  Python \<^verbatim>\<open>str\<close> values are modelled as \<open>string\<close>, one \<open>char\<close> per code point
  below 256. Python \<^verbatim>\<open>float\<close> values are modelled as \<open>real\<close>.
\<close>

datatype pyval = PInt int | PFloat real | PBool bool

type_synonym pydict = "(string \<times> pyval) list"

definition getitem :: "pydict \<Rightarrow> string \<Rightarrow> error + pyval" where
  \<comment> \<open>\<^verbatim>\<open>d[key]\<close>: KeyError when the key is absent\<close>
  "getitem d k = (case map_of d k of None \<Rightarrow> Inl KeyError | Some v \<Rightarrow> Inr v)"

fun ge_int :: "pyval \<Rightarrow> int \<Rightarrow> bool" where
  \<comment> \<open>\<^verbatim>\<open>v >= k\<close> for an int literal \<open>k\<close>; a bool counts as 0 or 1\<close>
  "ge_int (PInt n) k = (n \<ge> k)"
| "ge_int (PFloat r) k = (r \<ge> of_int k)"
| "ge_int (PBool b) k = ((if b then 1 else 0) \<ge> k)"

fun truthy :: "pyval \<Rightarrow> bool" where
  "truthy (PInt n) = (n \<noteq> 0)"
| "truthy (PFloat r) = (r \<noteq> 0)"
| "truthy (PBool b) = b"

section \<open>Dates and times\<close>

text \<open>
  A naive \<^verbatim>\<open>datetime\<close> is the number of microseconds since 0001-01-01T00:00:00, the
  smallest value of the type; the largest is 9999-12-31T23:59:59.999999. A \<^verbatim>\<open>date\<close> is
  its proleptic ordinal (1 for 0001-01-01, 3652059 for 9999-12-31).
\<close>

definition HOUR :: int where "HOUR = 3600000000"
definition MINUTE :: int where "MINUTE = 60000000"
definition DAY :: int where "DAY = 86400000000"
definition MAXORDINAL :: int where "MAXORDINAL = 3652059"

definition in_range :: "int \<Rightarrow> bool" where
  "in_range t = (0 \<le> t \<and> t < MAXORDINAL * DAY)"

text \<open>
  A timestamp read by \<^verbatim>\<open>datetime.fromisoformat\<close> is naive (wall-clock microseconds) or
  aware (wall-clock microseconds and the UTC offset in microseconds).
\<close>

datatype stamp = Naive int | Aware int int

fun wall :: "stamp \<Rightarrow> int" where
  "wall (Naive t) = t"
| "wall (Aware t off) = t"

fun stamp_lt :: "stamp \<Rightarrow> stamp \<Rightarrow> error + bool" where
  \<comment> \<open>\<^verbatim>\<open>a < b\<close>: ordering a naive against an aware datetime raises TypeError\<close>
  "stamp_lt (Naive a) (Naive b) = Inr (a < b)"
| "stamp_lt (Aware a oa) (Aware b ob) = Inr (a - oa < b - ob)"
| "stamp_lt _ _ = Inl TypeError"

fun stamp_le :: "stamp \<Rightarrow> stamp \<Rightarrow> error + bool" where
  "stamp_le (Naive a) (Naive b) = Inr (a \<le> b)"
| "stamp_le (Aware a oa) (Aware b ob) = Inr (a - oa \<le> b - ob)"
| "stamp_le _ _ = Inl TypeError"

definition stamp_gt :: "stamp \<Rightarrow> stamp \<Rightarrow> error + bool" where
  "stamp_gt a b = stamp_lt b a"

definition date_of :: "stamp \<Rightarrow> int" where
  \<comment> \<open>\<^verbatim>\<open>.date()\<close>, as an ordinal\<close>
  "date_of s = wall s div DAY + 1"

definition add_micros :: "int \<Rightarrow> int \<Rightarrow> error + int" where
  \<comment> \<open>\<^verbatim>\<open>dt + timedelta(...)\<close>: OverflowError when the sum is not a datetime\<close>
  "add_micros t d = (if in_range (t + d) then Inr (t + d) else Inl OverflowError)"

definition date_add_days :: "int \<Rightarrow> int \<Rightarrow> error + int" where
  \<comment> \<open>\<^verbatim>\<open>date + timedelta(days=n)\<close>\<close>
  "date_add_days d n =
     (if 1 \<le> d + n \<and> d + n \<le> MAXORDINAL then Inr (d + n) else Inl OverflowError)"

definition weekday :: "int \<Rightarrow> int" where
  \<comment> \<open>Monday is 0; 0001-01-01 is a Monday\<close>
  "weekday t = (t div DAY) mod 7"

definition hour_of :: "int \<Rightarrow> int" where
  "hour_of t = (t mod DAY) div HOUR"

definition replace_hour :: "int \<Rightarrow> int \<Rightarrow> error + int" where
  \<comment> \<open>\<^verbatim>\<open>dt.replace(hour=h, minute=0, second=0, microsecond=0)\<close>\<close>
  "replace_hour t h =
     (if 0 \<le> h \<and> h \<le> 23 then Inr (t - t mod DAY + h * HOUR) else Inl ValueError)"

section \<open>The habit tracker (\<^verbatim>\<open>dashboard.py\<close>, class HabitTracker)\<close>

definition habit_formation_days :: int where
  "habit_formation_days = 70"

record streak_state =
  current_streak :: int
  last_date :: "int option"

text \<open>
  One pass of the loop body of \<^verbatim>\<open>track_habit_progress\<close> after the session's date
  has been read: \<open>completed\<close> is \<^verbatim>\<open>session[1]\<close>. The assignment
  \<^verbatim>\<open>last_date = session_date\<close> belongs to the \<^verbatim>\<open>if session[1]:\<close> block.
\<close>

definition streak_step :: "streak_state \<Rightarrow> int \<Rightarrow> bool \<Rightarrow> error + streak_state"
where
  "streak_step st session_date completed =
     (if completed then
        (case last_date st of
           None \<Rightarrow> Inr \<lparr>current_streak = current_streak st + 1, last_date = Some session_date\<rparr>
         | Some ld \<Rightarrow>
             (case date_add_days ld 1 of
                Inl e \<Rightarrow> Inl e
              | Inr next_day \<Rightarrow>
                  if session_date = next_day
                  then Inr \<lparr>current_streak = current_streak st + 1, last_date = Some session_date\<rparr>
                  else if session_date \<noteq> ld
                  then Inr \<lparr>current_streak = 1, last_date = Some session_date\<rparr>
                  else Inr \<lparr>current_streak = current_streak st, last_date = Some session_date\<rparr>))
      else Inr st)"

text \<open>
  The loop over the rows \<^verbatim>\<open>(created_at, completed)\<close> of the query.
  \<open>fromisoformat\<close> stands for \<^verbatim>\<open>datetime.fromisoformat\<close>, \<open>None\<close> being its
  ValueError; it is applied to every row, completed or not.
\<close>

fun streak_loop ::
  "(string \<Rightarrow> stamp option) \<Rightarrow> streak_state \<Rightarrow> (string \<times> bool) list \<Rightarrow> error + streak_state"
where
  "streak_loop fromisoformat st [] = Inr st"
| "streak_loop fromisoformat st (session # sessions) =
     (case fromisoformat (fst session) of
        None \<Rightarrow> Inl ValueError
      | Some created \<Rightarrow>
          (case streak_step st (date_of created) (snd session) of
             Inl e \<Rightarrow> Inl e
           | Inr st' \<Rightarrow> streak_loop fromisoformat st' sessions))"

definition track_habit_progress ::
  "(string \<Rightarrow> stamp option) \<Rightarrow> (string \<times> bool) list \<Rightarrow> error + pydict"
where
  "track_habit_progress fromisoformat sessions =
     (if sessions = [] then
        Inr [(''days_completed'', PInt 0),
             (''days_remaining'', PInt habit_formation_days),
             (''progress_percentage'', PInt 0),
             (''current_streak'', PInt 0),
             (''is_on_track'', PBool False)]
      else
        (case streak_loop fromisoformat \<lparr>current_streak = 0, last_date = None\<rparr> sessions of
           Inl e \<Rightarrow> Inl e
         | Inr st \<Rightarrow>
             (let days_completed = min (current_streak st) habit_formation_days;
                  days_remaining = max 0 (habit_formation_days - days_completed);
                  progress_percentage =
                    (of_int days_completed / of_int habit_formation_days) * 100
              in Inr [(''days_completed'', PInt days_completed),
                      (''days_remaining'', PInt days_remaining),
                      (''progress_percentage'', PFloat progress_percentage),
                      (''current_streak'', PInt (current_streak st)),
                      (''is_on_track'', PBool (current_streak st \<ge> 5)),
                      (''milestone_reached'',
                         PBool (days_completed \<ge> habit_formation_days))])))"

text \<open>
  The five reward texts. Each starts with an emoji, written here as the four bytes of its
  UTF-8 encoding.
\<close>

definition reward_7 :: string where
  "reward_7 = [CHR 0xF0, CHR 0x9F, CHR 0x94, CHR 0xA5]
     @ '' 7-day streak! You'' @ [CHR 0x27] @ ''re building momentum!''"

definition reward_21 :: string where
  "reward_21 = [CHR 0xF0, CHR 0x9F, CHR 0x8C, CHR 0x9F]
     @ '' 21-day streak! This is becoming a habit!''"

definition reward_30 :: string where
  "reward_30 = [CHR 0xF0, CHR 0x9F, CHR 0x92, CHR 0xAA]
     @ '' 30-day streak! You'' @ [CHR 0x27] @ ''re unstoppable!''"

definition reward_50 :: string where
  "reward_50 = [CHR 0xF0, CHR 0x9F, CHR 0x8E, CHR 0xAF]
     @ '' 50 days! You'' @ [CHR 0x27] @ ''re almost at the finish line!''"

definition reward_habit :: string where
  "reward_habit = [CHR 0xF0, CHR 0x9F, CHR 0x8F, CHR 0x86]
     @ '' Congratulations! You'' @ [CHR 0x27] @ ''ve formed a lasting habit!''"

definition append_if :: "bool \<Rightarrow> string \<Rightarrow> string list \<Rightarrow> string list" where
  \<comment> \<open>\<^verbatim>\<open>if cond: rewards.append(msg)\<close>\<close>
  "append_if cond msg rewards = (if cond then rewards @ [msg] else rewards)"

definition get_milestone_rewards :: "pydict \<Rightarrow> error + string list" where
  "get_milestone_rewards progress =
     ebind (getitem progress ''current_streak'') (\<lambda>s7.
     let rewards = append_if (ge_int s7 7) reward_7 [] in
     ebind (getitem progress ''current_streak'') (\<lambda>s21.
     let rewards = append_if (ge_int s21 21) reward_21 rewards in
     ebind (getitem progress ''current_streak'') (\<lambda>s30.
     let rewards = append_if (ge_int s30 30) reward_30 rewards in
     ebind (getitem progress ''days_completed'') (\<lambda>d50.
     let rewards = append_if (ge_int d50 50) reward_50 rewards in
     ebind (getitem progress ''milestone_reached'') (\<lambda>m.
     let rewards = append_if (truthy m) reward_habit rewards in
     Inr rewards)))))"

section \<open>Strings\<close>

definition is_space :: "char \<Rightarrow> bool" where
  \<comment> \<open>the code points below 256 that \<^verbatim>\<open>str.strip\<close> removes\<close>
  "is_space c =
     (let n = (of_char c :: nat)
      in (9 \<le> n \<and> n \<le> 13) \<or> (28 \<le> n \<and> n \<le> 32) \<or> n = 133 \<or> n = 160)"

definition strip :: "string \<Rightarrow> string" where
  "strip s = rev (dropWhile is_space (rev (dropWhile is_space s)))"

definition lower_char :: "char \<Rightarrow> char" where
  \<comment> \<open>A-Z and the Latin-1 capitals, which lie 32 below their small letters\<close>
  "lower_char c =
     (let n = (of_char c :: nat)
      in if (65 \<le> n \<and> n \<le> 90) \<or> (192 \<le> n \<and> n \<le> 222 \<and> n \<noteq> 215)
         then char_of (n + 32) else c)"

definition lower :: "string \<Rightarrow> string" where
  "lower s = map lower_char s"

fun contains :: "string \<Rightarrow> string \<Rightarrow> bool" where
  \<comment> \<open>\<^verbatim>\<open>word in text\<close>\<close>
  "contains word [] = (word = [])"
| "contains word (c # cs) = (prefix word (c # cs) \<or> contains word cs)"

definition any_in :: "string list \<Rightarrow> string \<Rightarrow> bool" where
  \<comment> \<open>\<^verbatim>\<open>any(word in text for word in words)\<close>\<close>
  "any_in words text = list_ex (\<lambda>word. contains word text) words"

fun split_newline :: "string \<Rightarrow> string list" where
  \<comment> \<open>\<^verbatim>\<open>text.split('\n')\<close>\<close>
  "split_newline [] = [[]]"
| "split_newline (c # cs) =
     (if c = CHR 0x0A then [] # split_newline cs
      else (case split_newline cs of
              [] \<Rightarrow> [[c]]
            | line # lines \<Rightarrow> (c # line) # lines))"

definition replace_Z :: "string \<Rightarrow> string" where
  \<comment> \<open>\<^verbatim>\<open>s.replace('Z', '+00:00')\<close>\<close>
  "replace_Z s = concat (map (\<lambda>c. if c = CHR ''Z'' then ''+00:00'' else [c]) s)"

fun str_nat :: "nat \<Rightarrow> string" where
  \<comment> \<open>the decimal text of a number, as an f-string prints it\<close>
  "str_nat n =
     (if n < 10 then [char_of (48 + n)] else str_nat (n div 10) @ [char_of (48 + n mod 10)])"

declare str_nat.simps [simp del]

section \<open>The calendar aggregator (\<^verbatim>\<open>calendar_integration.py\<close>, class CalendarIntegration)\<close>

text \<open>
  An event dictionary. A field is \<open>None\<close> when the key is absent or its value is
  \<^verbatim>\<open>None\<close>.
\<close>

record event =
  ev_title :: "string option"
  ev_start :: "string option"
  ev_end :: "string option"
  ev_description :: "string option"
  ev_source :: "string option"

definition empty_event :: event where
  "empty_event = \<lparr>ev_title = None, ev_start = None, ev_end = None,
                   ev_description = None, ev_source = None\<rparr>"

text \<open>An item of the remote calendar's answer, with its two time dictionaries.\<close>

record gtime =
  dateTime :: "string option"
  date :: "string option"

record gitem =
  summary :: "string option"
  gstart :: "gtime option"
  gend :: "gtime option"
  gdescription :: "string option"

definition google_time :: "gtime option \<Rightarrow> error + string option" where
  \<comment> \<open>\<^verbatim>\<open>event['start'].get('dateTime', event['start'].get('date'))\<close>\<close>
  "google_time g =
     (case g of
        None \<Rightarrow> Inl KeyError
      | Some t \<Rightarrow> Inr (case dateTime t of Some s \<Rightarrow> Some s | None \<Rightarrow> date t))"

fun google_items :: "gitem list \<Rightarrow> error + event list" where
  "google_items [] = Inr []"
| "google_items (item # items) =
     ebind (google_time (gstart item)) (\<lambda>start'.
     ebind (google_time (gend item)) (\<lambda>end'.
     ebind (google_items items) (\<lambda>rest.
     Inr (\<lparr>ev_title = Some (case summary item of None \<Rightarrow> ''No Title'' | Some t \<Rightarrow> t),
           ev_start = start', ev_end = end',
           ev_description = Some (case gdescription item of None \<Rightarrow> [] | Some d \<Rightarrow> d),
           ev_source = Some ''google''\<rparr> # rest))))"

text \<open>
  \<open>google_service\<close> is \<open>None\<close> before authentication; otherwise it answers a
  \<^verbatim>\<open>events().list(...).execute()\<close> for a time window with the items or an exception.
  Every exception of the \<^verbatim>\<open>try\<close> block gives the empty list.
\<close>

definition get_google_events ::
  "(stamp \<Rightarrow> stamp \<Rightarrow> error + gitem list) option \<Rightarrow> stamp \<Rightarrow> stamp \<Rightarrow> event list"
where
  "get_google_events google_service start_time' end_time' =
     (case google_service of
        None \<Rightarrow> []
      | Some service \<Rightarrow>
          (case ebind (service start_time' end_time') google_items of
             Inl e \<Rightarrow> []
           | Inr events \<Rightarrow> events))"

definition ical_line :: "event list \<times> event \<Rightarrow> string \<Rightarrow> event list \<times> event" where
  \<comment> \<open>one pass of the loop over the lines; the state is \<^verbatim>\<open>(events, current_event)\<close>\<close>
  "ical_line state raw =
     (let events = fst state; current_event = snd state; line = strip raw
      in if line = ''BEGIN:VEVENT'' then (events, empty_event)
         else if line = ''END:VEVENT'' then
           (if current_event \<noteq> empty_event then events @ [current_event] else events,
            empty_event)
         else if prefix ''SUMMARY:'' line then
           (events, current_event\<lparr>ev_title := Some (drop 8 line)\<rparr>)
         else if prefix ''DTSTART:'' line then
           (events, current_event\<lparr>ev_start := Some (drop 8 line)\<rparr>)
         else if prefix ''DTEND:'' line then
           (events, current_event\<lparr>ev_end := Some (drop 6 line)\<rparr>)
         else if prefix ''DESCRIPTION:'' line then
           (events, current_event\<lparr>ev_description := Some (drop 12 line)\<rparr>)
         else (events, current_event))"

definition in_window ::
  "(string \<Rightarrow> stamp option) \<Rightarrow> stamp \<Rightarrow> stamp \<Rightarrow> event \<Rightarrow> error + bool"
where
  \<comment> \<open>the body of the inner \<^verbatim>\<open>try\<close>: parse the start, compare it with the window\<close>
  "in_window fromisoformat start_time' end_time' ev =
     (case ev_start ev of
        None \<Rightarrow> Inl KeyError
      | Some s \<Rightarrow>
          (case fromisoformat (replace_Z s) of
             None \<Rightarrow> Inl ValueError
           | Some event_start \<Rightarrow>
               ebind (stamp_le start_time' event_start) (\<lambda>after_start.
               if after_start then stamp_le event_start end_time' else Inr False)))"

definition filter_events ::
  "(string \<Rightarrow> stamp option) \<Rightarrow> stamp \<Rightarrow> stamp \<Rightarrow> event list \<Rightarrow> event list"
where
  \<comment> \<open>an event without start, or whose \<^verbatim>\<open>try\<close> raises, is skipped\<close>
  "filter_events fromisoformat start_time' end_time' events =
     concat (map (\<lambda>ev.
       if ev_start ev = None then []
       else (case in_window fromisoformat start_time' end_time' ev of
               Inr True \<Rightarrow> [ev\<lparr>ev_source := Some ''ical''\<rparr>]
             | _ \<Rightarrow> [])) events)"

text \<open>
  \<open>fetch\<close> stands for \<^verbatim>\<open>requests.get(url, timeout=10)\<close> followed by
  \<^verbatim>\<open>raise_for_status()\<close> and \<^verbatim>\<open>.text\<close>: the feed's text, or the exception raised.
\<close>

definition parse_ical_url ::
  "(string \<Rightarrow> error + string) \<Rightarrow> (string \<Rightarrow> stamp option) \<Rightarrow> string \<Rightarrow> stamp \<Rightarrow> stamp
     \<Rightarrow> event list"
where
  "parse_ical_url fetch fromisoformat ical_url start_time' end_time' =
     (case fetch ical_url of
        Inl e \<Rightarrow> []
      | Inr text \<Rightarrow>
          (let events = fst (foldl ical_line ([], empty_event) (split_newline text))
           in filter_events fromisoformat start_time' end_time' events))"

definition get_all_events ::
  "(stamp \<Rightarrow> stamp \<Rightarrow> error + gitem list) option \<Rightarrow> (string \<Rightarrow> error + string)
     \<Rightarrow> (string \<Rightarrow> stamp option) \<Rightarrow> string list \<Rightarrow> stamp \<Rightarrow> stamp \<Rightarrow> event list"
where
  "get_all_events google_service fetch fromisoformat ical_urls' start_time' end_time' =
     (let all_events = [] @ get_google_events google_service start_time' end_time'
      in foldl (\<lambda>all_events ical_url.
                  all_events @ parse_ical_url fetch fromisoformat ical_url start_time' end_time')
           all_events ical_urls')"

section \<open>The scheduler (\<^verbatim>\<open>calendar_integration.py\<close>, class SmartScheduler)\<close>

text \<open>
  The preferences dictionary: a field is \<open>None\<close> when the caller left the key out, and
  \<^verbatim>\<open>preferences.get(key, default)\<close> then gives the default.
\<close>

record preferences =
  ical_urls :: "string list option"
  preferred_study_hours :: "int list option"
  preferred_days :: "int list option"
  morning_preference :: "real option"
  midday_preference :: "real option"
  afternoon_preference :: "real option"
  evening_preference :: "real option"
  subjects :: "string list option"

definition get_or :: "'a option \<Rightarrow> 'a \<Rightarrow> 'a" where
  \<comment> \<open>\<^verbatim>\<open>d.get(key, default)\<close>\<close>
  "get_or v default' = (case v of None \<Rightarrow> default' | Some x \<Rightarrow> x)"

text \<open>
  A recommended slot. The code stores \<^verbatim>\<open>start_time\<close> and \<^verbatim>\<open>end_time\<close> as the
  \<^verbatim>\<open>isoformat()\<close> text of the naive datetimes kept here. A planned session has the
  same five entries and three more.
\<close>

record slot =
  start_time :: int
  end_time :: int
  duration_minutes :: int
  confidence_score :: real
  subject :: string

record session = slot +
  title :: string
  description :: string
  type' :: string

definition calculate_confidence_score :: "int \<Rightarrow> preferences \<Rightarrow> real" where
  "calculate_confidence_score slot_time prefs =
     (let score = 0;
          hour = hour_of slot_time;
          score =
            (if 6 \<le> hour \<and> hour \<le> 9 then score + get_or (morning_preference prefs) 0.8
             else if 10 \<le> hour \<and> hour \<le> 14 then score + get_or (midday_preference prefs) 0.6
             else if 15 \<le> hour \<and> hour \<le> 18 then score + get_or (afternoon_preference prefs) 0.7
             else score + get_or (evening_preference prefs) 0.5);
          weekday' = weekday slot_time;
          score =
            (if weekday' \<in> set (get_or (preferred_days prefs) [0, 1, 2, 3, 4])
             then score + 0.2 else score)
      in min score 1.0)"

definition suggest_subject :: "int \<Rightarrow> preferences \<Rightarrow> error + string" where
  "suggest_subject slot_time prefs =
     (let subjects' =
            get_or (subjects prefs) [''General Study'', ''Math'', ''Science'', ''Literature''];
          day_index = weekday slot_time
      in if length subjects' = 0 then Inl ZeroDivisionError
         else Inr (subjects' ! nat (day_index mod int (length subjects'))))"

definition overlaps :: "int \<Rightarrow> int \<Rightarrow> stamp \<Rightarrow> stamp \<Rightarrow> error + bool" where
  \<comment> \<open>\<^verbatim>\<open>slot_start < busy_end and slot_end > busy_start\<close>\<close>
  "overlaps slot_start slot_end busy_start busy_end =
     ebind (stamp_lt (Naive slot_start) busy_end) (\<lambda>before_end.
     if before_end then stamp_gt (Naive slot_end) busy_start else Inr False)"

fun conflicts :: "int \<Rightarrow> int \<Rightarrow> (stamp \<times> stamp) list \<Rightarrow> error + bool" where
  \<comment> \<open>the loop over \<^verbatim>\<open>busy_times\<close>, left at the first overlap\<close>
  "conflicts slot_start slot_end [] = Inr False"
| "conflicts slot_start slot_end (busy # busy_times) =
     ebind (overlaps slot_start slot_end (fst busy) (snd busy)) (\<lambda>hit.
     if hit then Inr True else conflicts slot_start slot_end busy_times)"

definition busy_time ::
  "(string \<Rightarrow> stamp option) \<Rightarrow> event \<Rightarrow> error + stamp \<times> stamp"
where
  \<comment> \<open>the body of the \<^verbatim>\<open>try\<close> that reads an event's start and end\<close>
  "busy_time fromisoformat ev =
     (case ev_start ev of
        None \<Rightarrow> Inl KeyError
      | Some s \<Rightarrow>
          (case fromisoformat (replace_Z s) of
             None \<Rightarrow> Inl ValueError
           | Some event_start \<Rightarrow>
               (case ev_end ev of
                  None \<Rightarrow> Inl KeyError
                | Some e \<Rightarrow>
                    (case fromisoformat (replace_Z e) of
                       None \<Rightarrow> Inl ValueError
                     | Some event_end \<Rightarrow> Inr (event_start, event_end)))))"

definition busy_times_of ::
  "(string \<Rightarrow> stamp option) \<Rightarrow> event list \<Rightarrow> (stamp \<times> stamp) list"
where
  \<comment> \<open>an event whose \<^verbatim>\<open>try\<close> raises is skipped\<close>
  "busy_times_of fromisoformat existing_events =
     concat (map (\<lambda>ev. case busy_time fromisoformat ev of Inl e \<Rightarrow> [] | Inr b \<Rightarrow> [b])
       existing_events)"

text \<open>
  The loop over \<^verbatim>\<open>preferred_hours\<close> for one day, and the loop over the day offsets.
  Each returns the slots it appends, in the order of appending; an exception ends the
  whole call.
\<close>

fun hours_loop ::
  "preferences \<Rightarrow> int \<Rightarrow> (stamp \<times> stamp) list \<Rightarrow> int \<Rightarrow> int list \<Rightarrow> error + slot list"
where
  "hours_loop prefs study_duration busy_times current_date [] = Inr []"
| "hours_loop prefs study_duration busy_times current_date (hour # hours) =
     ebind (replace_hour current_date hour) (\<lambda>slot_start.
     ebind (add_micros slot_start (study_duration * MINUTE)) (\<lambda>slot_end.
     ebind (conflicts slot_start slot_end busy_times) (\<lambda>conflicts'.
     if \<not> conflicts' then
       (let score = calculate_confidence_score slot_start prefs in
        ebind (suggest_subject slot_start prefs) (\<lambda>subject'.
        ebind (hours_loop prefs study_duration busy_times current_date hours) (\<lambda>rest.
        Inr (\<lparr>start_time = slot_start, end_time = slot_end,
              duration_minutes = study_duration, confidence_score = score,
              subject = subject'\<rparr> # rest))))
     else hours_loop prefs study_duration busy_times current_date hours)))"

fun days_loop ::
  "preferences \<Rightarrow> int \<Rightarrow> (stamp \<times> stamp) list \<Rightarrow> int \<Rightarrow> nat list \<Rightarrow> error + slot list"
where
  "days_loop prefs study_duration busy_times start_time' [] = Inr []"
| "days_loop prefs study_duration busy_times start_time' (day_offset # day_offsets) =
     ebind (add_micros start_time' (int day_offset * DAY)) (\<lambda>current_date.
     if weekday current_date \<notin> set (get_or (preferred_days prefs) [0, 1, 2, 3, 4])
     then days_loop prefs study_duration busy_times start_time' day_offsets
     else
       ebind (hours_loop prefs study_duration busy_times current_date
                (get_or (preferred_study_hours prefs) [9, 14, 19])) (\<lambda>slots.
       ebind (days_loop prefs study_duration busy_times start_time' day_offsets) (\<lambda>rest.
       Inr (slots @ rest))))"

text \<open>
  \<open>now\<close> is the reading of \<^verbatim>\<open>datetime.now()\<close>. The descending sort is stable, as
  \<^verbatim>\<open>list.sort(reverse=True)\<close> is.
\<close>

definition find_optimal_study_times ::
  "(stamp \<Rightarrow> stamp \<Rightarrow> error + gitem list) option \<Rightarrow> (string \<Rightarrow> error + string)
     \<Rightarrow> (string \<Rightarrow> stamp option) \<Rightarrow> int \<Rightarrow> preferences \<Rightarrow> int \<Rightarrow> int \<Rightarrow> error + slot list"
where
  "find_optimal_study_times google_service fetch fromisoformat now prefs study_duration days_ahead =
     (let start_time' = now in
      ebind (add_micros start_time' (days_ahead * DAY)) (\<lambda>end_time'.
      let existing_events =
            get_all_events google_service fetch fromisoformat (get_or (ical_urls prefs) [])
              (Naive start_time') (Naive end_time');
          busy_times = busy_times_of fromisoformat existing_events
      in
      ebind (days_loop prefs study_duration busy_times start_time' [0..<nat days_ahead])
        (\<lambda>available_slots.
      Inr (take 10 (sort_key (\<lambda>x. - confidence_score x) available_slots)))))"

text \<open>
  The classification of a work description: the two \<^verbatim>\<open>if\<close>/\<^verbatim>\<open>elif\<close> chains of
  \<^verbatim>\<open>suggest_study_sessions_from_work\<close> over the lower-cased text.
\<close>

definition study_type_and_duration :: "string \<Rightarrow> string \<times> int" where
  "study_type_and_duration work_lower =
     (if any_in [''pset'', ''problem set'', ''homework'', ''assignment''] work_lower
      then (''Problem Set'', 180)
      else if any_in [''exam'', ''test'', ''midterm'', ''final''] work_lower
      then (''Exam Preparation'', 240)
      else if any_in [''project'', ''paper'', ''essay'', ''report''] work_lower
      then (''Project Work'', 200)
      else if any_in [''read'', ''reading'', ''textbook'', ''chapter''] work_lower
      then (''Reading & Notes'', 90)
      else if any_in [''code'', ''programming'', ''debug'', ''algorithm''] work_lower
      then (''Coding Practice'', 150)
      else (''General Study'', 120))"

definition subject_of_work :: "string \<Rightarrow> string" where
  "subject_of_work work_lower =
     (if any_in [''math'', ''calculus'', ''algebra'', ''statistics''] work_lower
      then ''Mathematics''
      else if any_in [''physics'', ''chemistry'', ''biology'', ''science''] work_lower
      then ''Science''
      else if any_in [''cs'', ''computer science'', ''programming'', ''code''] work_lower
      then ''Computer Science''
      else if any_in [''english'', ''literature'', ''writing'', ''essay''] work_lower
      then ''English/Literature''
      else if any_in [''history'', ''social studies'', ''politics''] work_lower
      then ''History''
      else ''General'')"

text \<open>
  \<open>clock i\<close> is the reading of \<^verbatim>\<open>datetime.now()\<close> in pass \<open>i\<close> of the loop over
  \<^verbatim>\<open>range(num_sessions)\<close>; the single-session branch reads \<open>clock 0\<close>.
\<close>

fun parts_loop ::
  "(nat \<Rightarrow> int) \<Rightarrow> int list \<Rightarrow> string \<Rightarrow> string \<Rightarrow> string \<Rightarrow> int \<Rightarrow> nat list
     \<Rightarrow> error + session list"
where
  "parts_loop clock preferred_hours study_type subject' work_description session_duration [] =
     Inr []"
| "parts_loop clock preferred_hours study_type subject' work_description session_duration
     (i # is) =
     (if length preferred_hours = 0 then Inl ZeroDivisionError
      else
        (let hour = preferred_hours ! (i mod length preferred_hours) in
         ebind (replace_hour (clock i) hour) (\<lambda>midnight_hour.
         ebind (add_micros midnight_hour (int i * DAY)) (\<lambda>start_time'.
         ebind (add_micros start_time' (session_duration * MINUTE)) (\<lambda>end_time'.
         ebind (parts_loop clock preferred_hours study_type subject' work_description
                  session_duration is) (\<lambda>rest.
         Inr (\<lparr>start_time = start_time', end_time = end_time',
               duration_minutes = session_duration, confidence_score = 0.8,
               subject = subject',
               title = study_type @ '' - '' @ subject' @ '' (Part '' @ str_nat (i + 1) @ '')'',
               description = ''Study session for: '' @ work_description,
               type' = study_type\<rparr> # rest)))))))"

definition suggest_study_sessions_from_work ::
  "(nat \<Rightarrow> int) \<Rightarrow> string \<Rightarrow> preferences \<Rightarrow> error + session list"
where
  "suggest_study_sessions_from_work clock work_description prefs =
     (let work_lower = lower work_description;
          study_type = fst (study_type_and_duration work_lower);
          duration = snd (study_type_and_duration work_lower);
          subject' = subject_of_work work_lower;
          preferred_hours = get_or (preferred_study_hours prefs) [9, 14, 19]
      in if duration > 180 then
           (let session_duration = 120;
                num_sessions = max 2 (duration div session_duration)
            in parts_loop clock preferred_hours study_type subject' work_description
                 session_duration [0..<nat num_sessions])
         else
           (case preferred_hours of
              [] \<Rightarrow> Inl IndexError
            | hour # hours \<Rightarrow>
                ebind (replace_hour (clock 0) hour) (\<lambda>start_time'.
                ebind (add_micros start_time' (duration * MINUTE)) (\<lambda>end_time'.
                Inr [\<lparr>start_time = start_time', end_time = end_time',
                      duration_minutes = duration, confidence_score = 0.9,
                      subject = subject',
                      title = study_type @ '' - '' @ subject',
                      description = ''Study session for: '' @ work_description,
                      type' = study_type\<rparr>]))))"

text \<open>
  What holds of a slot that the pass for \<open>hour\<close> on \<open>current_date\<close> appends: how the
  loop body computes each of its entries, and that the conflict check found no overlap.
\<close>

definition made_slot ::
  "preferences \<Rightarrow> int \<Rightarrow> (stamp \<times> stamp) list \<Rightarrow> int \<Rightarrow> int \<Rightarrow> slot \<Rightarrow> bool"
where
  "made_slot prefs study_duration busy_times current_date hour s =
     (0 \<le> hour \<and> hour \<le> 23
      \<and> start_time s = current_date - current_date mod DAY + hour * HOUR
      \<and> end_time s = start_time s + study_duration * MINUTE
      \<and> duration_minutes s = study_duration
      \<and> conflicts (start_time s) (end_time s) busy_times = Inr False
      \<and> confidence_score s = calculate_confidence_score (start_time s) prefs
      \<and> suggest_subject (start_time s) prefs = Inr (subject s))"

text \<open>
  The category rules as the specification's table lists them, in priority order (five
  keyword rules; the default is the sixth), and the evaluation of such a table in which
  the first rule with a matching keyword wins. They are compared with
  \<open>study_type_and_duration\<close> below.
\<close>

definition spec_type_rules :: "(string list \<times> string \<times> int) list" where
  "spec_type_rules =
     [([''pset'', ''problem set'', ''homework'', ''assignment''], ''Problem Set'', 180),
      ([''exam'', ''test'', ''midterm'', ''final''], ''Exam Preparation'', 240),
      ([''project'', ''paper'', ''essay'', ''report''], ''Project Work'', 200),
      ([''read'', ''reading'', ''textbook'', ''chapter''], ''Reading & Notes'', 90),
      ([''code'', ''programming'', ''debug'', ''algorithm''], ''Coding Practice'', 150)]"

fun spec_first_match :: "(string list \<times> 'a) list \<Rightarrow> 'a \<Rightarrow> string \<Rightarrow> 'a" where
  "spec_first_match [] default' text = default'"
| "spec_first_match (rule # rules) default' text =
     (if any_in (fst rule) text then snd rule else spec_first_match rules default' text)"

text \<open>
  Session \<open>i\<close> of a split plan, as pass \<open>i\<close> of \<open>parts_loop\<close> builds it when nothing
  raises.
\<close>

definition part ::
  "(nat \<Rightarrow> int) \<Rightarrow> int list \<Rightarrow> string \<Rightarrow> string \<Rightarrow> string \<Rightarrow> int \<Rightarrow> nat \<Rightarrow> session"
where
  "part clock preferred_hours study_type subject' work_description session_duration i =
     \<lparr>start_time = clock i - clock i mod DAY
                     + preferred_hours ! (i mod length preferred_hours) * HOUR + int i * DAY,
       end_time = clock i - clock i mod DAY
                   + preferred_hours ! (i mod length preferred_hours) * HOUR + int i * DAY
                   + session_duration * MINUTE,
       duration_minutes = session_duration, confidence_score = 0.8, subject = subject',
       title = study_type @ '' - '' @ subject' @ '' (Part '' @ str_nat (i + 1) @ '')'',
       description = ''Study session for: '' @ work_description,
       type' = study_type\<rparr>"

section \<open>The error monad\<close>

lemma ebind_Inr_iff: "ebind m f = Inr y \<longleftrightarrow> (\<exists>x. m = Inr x \<and> f x = Inr y)"
  by (cases m) (simp_all add: ebind_def)

lemma ebind_Inl [simp]: "ebind (Inl e) f = Inl e"
  by (simp add: ebind_def)

lemma ebind_Inr [simp]: "ebind (Inr x) f = f x"
  by (simp add: ebind_def)

section \<open>Properties of the habit tracker\<close>

text \<open>
  C3 (as amended). In the walk of \<^verbatim>\<open>track_habit_progress\<close> over the session log, a
  session with \<^verbatim>\<open>completed\<close> false changes nothing: the running streak counter and
  the previous-date tracker both keep their values, whatever the session's date is.
\<close>

theorem incomplete_session_changes_nothing:
  "streak_step st session_date False = Inr st"
  by (simp add: streak_step_def)

text \<open>
  C3 as stated expects an incomplete session dated 739926, met while the tracker holds
  739924, to move the tracker to 739926 and keep the streak at 3. The code does not
  produce that state.
\<close>

theorem incomplete_session_counterexample:
  "streak_step \<lparr>current_streak = 3, last_date = Some 739924\<rparr> 739926 False
     \<noteq> Inr \<lparr>current_streak = 3, last_date = Some 739926\<rparr>"
  by (simp add: streak_step_def)

text \<open>
  C4. On the empty session log \<^verbatim>\<open>track_habit_progress\<close> returns a dictionary of five
  entries that has no \<^verbatim>\<open>milestone_reached\<close> key, and \<^verbatim>\<open>get_milestone_rewards\<close>
  applied to this result, as the habit-progress endpoint does, raises KeyError.
\<close>

theorem empty_log_lacks_milestone_reached:
  "track_habit_progress fromisoformat [] =
     Inr [(''days_completed'', PInt 0), (''days_remaining'', PInt 70),
          (''progress_percentage'', PInt 0), (''current_streak'', PInt 0),
          (''is_on_track'', PBool False)]
   \<and> ebind (track_habit_progress fromisoformat [])
        (\<lambda>progress. getitem progress ''milestone_reached'') = Inl KeyError
   \<and> ebind (track_habit_progress fromisoformat []) get_milestone_rewards = Inl KeyError"
  by (simp add: track_habit_progress_def habit_formation_days_def ebind_def getitem_def
      get_milestone_rewards_def append_if_def)

text \<open>
  The other return of \<^verbatim>\<open>track_habit_progress\<close>, taken on a log that is not empty,
  builds all six entries.
\<close>

lemma nonempty_log_has_six_keys:
  assumes "sessions \<noteq> []"
    and "track_habit_progress fromisoformat sessions = Inr progress"
  shows "map fst progress =
           [''days_completed'', ''days_remaining'', ''progress_percentage'',
            ''current_streak'', ''is_on_track'', ''milestone_reached'']"
  using assms
  by (auto simp: track_habit_progress_def Let_def split: sum.splits)

text \<open>
  C8. \<^verbatim>\<open>get_milestone_rewards\<close> is a function of the progress record alone: on a
  record holding \<^verbatim>\<open>current_streak\<close>, \<^verbatim>\<open>days_completed\<close> and \<^verbatim>\<open>milestone_reached\<close>
  it returns, in this order, the 7-day, 21-day and 30-day streak messages, the 50-days
  message and the habit message, each present exactly when its threshold holds. A streak
  of 21 with fewer than 50 days completed and the milestone not reached gives the 7-day
  and 21-day messages, in that order, and not the 30-day message.
\<close>

theorem milestone_rewards_thresholds:
  assumes "map_of progress ''current_streak'' = Some s"
    and "map_of progress ''days_completed'' = Some d"
    and "map_of progress ''milestone_reached'' = Some m"
  shows "get_milestone_rewards progress =
           Inr ((if ge_int s 7 then [reward_7] else [])
              @ (if ge_int s 21 then [reward_21] else [])
              @ (if ge_int s 30 then [reward_30] else [])
              @ (if ge_int d 50 then [reward_50] else [])
              @ (if truthy m then [reward_habit] else []))
         \<and> (s = PInt 21 \<and> \<not> ge_int d 50 \<and> \<not> truthy m \<longrightarrow>
              get_milestone_rewards progress = Inr [reward_7, reward_21]
              \<and> reward_30 \<notin> set [reward_7, reward_21])"
proof -
  have distinct: "reward_30 \<notin> set [reward_7, reward_21]"
    by (simp add: reward_7_def reward_21_def reward_30_def)
  have general: "get_milestone_rewards progress =
           Inr ((if ge_int s 7 then [reward_7] else [])
              @ (if ge_int s 21 then [reward_21] else [])
              @ (if ge_int s 30 then [reward_30] else [])
              @ (if ge_int d 50 then [reward_50] else [])
              @ (if truthy m then [reward_habit] else []))"
    using assms
    by (simp add: get_milestone_rewards_def getitem_def ebind_def append_if_def)
  show ?thesis
  proof (intro conjI impI)
    show "get_milestone_rewards progress =
           Inr ((if ge_int s 7 then [reward_7] else [])
              @ (if ge_int s 21 then [reward_21] else [])
              @ (if ge_int s 30 then [reward_30] else [])
              @ (if ge_int d 50 then [reward_50] else [])
              @ (if truthy m then [reward_habit] else []))"
      by (rule general)
  next
    assume "s = PInt 21 \<and> \<not> ge_int d 50 \<and> \<not> truthy m"
    then show "get_milestone_rewards progress = Inr [reward_7, reward_21]"
      using general by simp
  next
    show "reward_30 \<notin> set [reward_7, reward_21]" by (rule distinct)
  qed
qed

theorem milestone_rewards_thresholds_witness:
  "get_milestone_rewards
     [(''days_completed'', PInt 21), (''days_remaining'', PInt 49),
      (''progress_percentage'', PFloat 30), (''current_streak'', PInt 21),
      (''is_on_track'', PBool True), (''milestone_reached'', PBool False)]
   = Inr [reward_7, reward_21]"
  using milestone_rewards_thresholds
    [of "[(''days_completed'', PInt 21), (''days_remaining'', PInt 49),
          (''progress_percentage'', PFloat 30), (''current_streak'', PInt 21),
          (''is_on_track'', PBool True), (''milestone_reached'', PBool False)]"
        "PInt 21" "PInt 21" "PBool False"]
  by simp

section \<open>Properties of the calendar aggregator\<close>

lemma foldl_append_concat:
  "foldl (\<lambda>acc u. acc @ f u) acc us = acc @ concat (map f us)"
  by (induction us arbitrary: acc) simp_all

lemma get_all_events_concat:
  "get_all_events g fetch fi urls st en =
     get_google_events g st en @ concat (map (\<lambda>u. parse_ical_url fetch fi u st en) urls)"
  by (simp add: get_all_events_def foldl_append_concat)

text \<open>
  C7. When the fetch of one subscription feed fails, that feed contributes no event, and
  \<^verbatim>\<open>get_all_events\<close> returns the remote calendar's events followed by the events of
  the other feeds, exactly what it returns when the failed feed is left out of the list.
  \<^verbatim>\<open>get_all_events\<close> returns a list in every case: no failure reaches its caller.
\<close>

theorem failed_feed_contributes_nothing:
  assumes "fetch ical_url = Inl e"
  shows "parse_ical_url fetch fromisoformat ical_url st en = []
       \<and> get_all_events g fetch fromisoformat (before @ ical_url # after) st en =
           get_google_events g st en
           @ concat (map (\<lambda>u. parse_ical_url fetch fromisoformat u st en) before)
           @ concat (map (\<lambda>u. parse_ical_url fetch fromisoformat u st en) after)
       \<and> get_all_events g fetch fromisoformat (before @ ical_url # after) st en =
           get_all_events g fetch fromisoformat (before @ after) st en"
proof -
  have none: "parse_ical_url fetch fromisoformat ical_url st en = []"
    using assms by (simp add: parse_ical_url_def)
  then show ?thesis
    by (simp add: get_all_events_concat)
qed

theorem failed_feed_contributes_nothing_witness:
  "get_all_events None
     (\<lambda>url. if url = ''https://cal.example/ok.ics''
            then Inr (''BEGIN:VEVENT'' @ [CHR 0x0A] @ ''SUMMARY:Lab'' @ [CHR 0x0D, CHR 0x0A]
                      @ ''DTSTART:2026-11-04T10:00:00'' @ [CHR 0x0A] @ ''END:VEVENT'')
            else Inl RequestError)
     [''2026-11-04T10:00:00'' \<mapsto> Naive (739923 * DAY + 10 * HOUR)]
     [''https://cal.example/ok.ics'', ''https://cal.example/down.ics'']
     (Naive (739923 * DAY + 8 * HOUR)) (Naive (739924 * DAY + 8 * HOUR))
   = [\<lparr>ev_title = Some ''Lab'', ev_start = Some ''2026-11-04T10:00:00'', ev_end = None,
        ev_description = None, ev_source = Some ''ical''\<rparr>]"
proof -
  have ok: "parse_ical_url
     (\<lambda>url. if url = ''https://cal.example/ok.ics''
            then Inr (''BEGIN:VEVENT'' @ [CHR 0x0A] @ ''SUMMARY:Lab'' @ [CHR 0x0D, CHR 0x0A]
                      @ ''DTSTART:2026-11-04T10:00:00'' @ [CHR 0x0A] @ ''END:VEVENT'')
            else Inl RequestError)
     [''2026-11-04T10:00:00'' \<mapsto> Naive (739923 * DAY + 10 * HOUR)]
     ''https://cal.example/ok.ics''
     (Naive (739923 * DAY + 8 * HOUR)) (Naive (739924 * DAY + 8 * HOUR))
   = [\<lparr>ev_title = Some ''Lab'', ev_start = Some ''2026-11-04T10:00:00'', ev_end = None,
        ev_description = None, ev_source = Some ''ical''\<rparr>]"
    by (simp add: parse_ical_url_def ical_line_def strip_def is_space_def empty_event_def
        filter_events_def in_window_def replace_Z_def DAY_def HOUR_def Let_def)
  from failed_feed_contributes_nothing [where
      fetch = "\<lambda>url. if url = ''https://cal.example/ok.ics''
            then Inr (''BEGIN:VEVENT'' @ [CHR 0x0A] @ ''SUMMARY:Lab'' @ [CHR 0x0D, CHR 0x0A]
                      @ ''DTSTART:2026-11-04T10:00:00'' @ [CHR 0x0A] @ ''END:VEVENT'')
            else Inl RequestError"
      and ical_url = "''https://cal.example/down.ics''" and e = RequestError
      and fromisoformat = "[''2026-11-04T10:00:00'' \<mapsto> Naive (739923 * DAY + 10 * HOUR)]"
      and st = "Naive (739923 * DAY + 8 * HOUR)" and en = "Naive (739924 * DAY + 8 * HOUR)"
      and g = None and before = "[''https://cal.example/ok.ics'']" and after = "[]"]
  show ?thesis
    using ok by (simp add: get_google_events_def)
qed

section \<open>Properties of the scheduler\<close>

lemma day_floor:
  assumes "0 \<le> h" "h \<le> 23"
  shows "(t - t mod DAY + h * HOUR) div DAY = t div DAY"
    and "(t - t mod DAY + h * HOUR) mod DAY = h * HOUR"
    and "hour_of (t - t mod DAY + h * HOUR) = h"
    and "weekday (t - t mod DAY + h * HOUR) = weekday t"
proof -
  have eq: "t - t mod DAY = DAY * (t div DAY)"
    by (simp add: minus_mod_eq_mult_div)
  have r: "0 \<le> h * HOUR" "h * HOUR < DAY"
    using assms by (simp_all add: HOUR_def DAY_def)
  show d: "(t - t mod DAY + h * HOUR) div DAY = t div DAY"
    unfolding eq using r by simp
  show m: "(t - t mod DAY + h * HOUR) mod DAY = h * HOUR"
    unfolding eq using r by simp
  show "hour_of (t - t mod DAY + h * HOUR) = h"
    unfolding hour_of_def m by (simp add: HOUR_def)
  show "weekday (t - t mod DAY + h * HOUR) = weekday t"
    unfolding weekday_def d ..
qed


lemma conflicts_False:
  "conflicts slot_start slot_end busy_times = Inr False \<Longrightarrow> b \<in> set busy_times
     \<Longrightarrow> overlaps slot_start slot_end (fst b) (snd b) = Inr False"
proof (induction busy_times)
  case Nil
  then show ?case by simp
next
  case (Cons a busy_times)
  then show ?case
    by (auto simp: ebind_Inr_iff split: if_splits)
qed

lemma hours_loop_slots:
  "hours_loop prefs study_duration busy_times current_date hours = Inr slots
     \<Longrightarrow> s \<in> set slots
     \<Longrightarrow> \<exists>hour \<in> set hours. made_slot prefs study_duration busy_times current_date hour s"
proof (induction hours arbitrary: slots)
  case Nil
  then show ?case by simp
next
  case (Cons hour hours)
  from Cons.prems(1) obtain slot_start slot_end c where
    rh: "replace_hour current_date hour = Inr slot_start"
    and am: "add_micros slot_start (study_duration * MINUTE) = Inr slot_end"
    and cf: "conflicts slot_start slot_end busy_times = Inr c"
    and rest: "(if \<not> c then
       (let score = calculate_confidence_score slot_start prefs in
        ebind (suggest_subject slot_start prefs) (\<lambda>subject'.
        ebind (hours_loop prefs study_duration busy_times current_date hours) (\<lambda>rest.
        Inr (\<lparr>start_time = slot_start, end_time = slot_end,
              duration_minutes = study_duration, confidence_score = score,
              subject = subject'\<rparr> # rest))))
     else hours_loop prefs study_duration busy_times current_date hours) = Inr slots"
    by (auto simp: ebind_Inr_iff)
  show ?case
  proof (cases c)
    case True
    with rest have "hours_loop prefs study_duration busy_times current_date hours = Inr slots"
      by simp
    from Cons.IH [OF this Cons.prems(2)] show ?thesis by auto
  next
    case False
    with rest obtain subject' rest' where
      sj: "suggest_subject slot_start prefs = Inr subject'"
      and rl: "hours_loop prefs study_duration busy_times current_date hours = Inr rest'"
      and sl: "slots = \<lparr>start_time = slot_start, end_time = slot_end,
              duration_minutes = study_duration,
              confidence_score = calculate_confidence_score slot_start prefs,
              subject = subject'\<rparr> # rest'"
      by (auto simp: ebind_Inr_iff Let_def)
    from Cons.prems(2) sl consider
      (here) "s = \<lparr>start_time = slot_start, end_time = slot_end,
              duration_minutes = study_duration,
              confidence_score = calculate_confidence_score slot_start prefs,
              subject = subject'\<rparr>"
      | (later) "s \<in> set rest'"
      by auto
    then show ?thesis
    proof cases
      case here
      from rh have "0 \<le> hour" "hour \<le> 23"
        "slot_start = current_date - current_date mod DAY + hour * HOUR"
        by (auto simp: replace_hour_def split: if_splits)
      moreover from am have "slot_end = slot_start + study_duration * MINUTE"
        by (auto simp: add_micros_def split: if_splits)
      ultimately have "made_slot prefs study_duration busy_times current_date hour s"
        using here cf False sj by (simp add: made_slot_def)
      then show ?thesis by auto
    next
      case later
      from Cons.IH [OF rl later] show ?thesis by auto
    qed
  qed
qed

lemma days_loop_slots:
  "days_loop prefs study_duration busy_times start_time' day_offsets = Inr slots
     \<Longrightarrow> s \<in> set slots
     \<Longrightarrow> \<exists>day_offset \<in> set day_offsets.
           weekday (start_time' + int day_offset * DAY)
             \<in> set (get_or (preferred_days prefs) [0, 1, 2, 3, 4])
           \<and> (\<exists>hour \<in> set (get_or (preferred_study_hours prefs) [9, 14, 19]).
                made_slot prefs study_duration busy_times
                  (start_time' + int day_offset * DAY) hour s)"
proof (induction day_offsets arbitrary: slots)
  case Nil
  then show ?case by simp
next
  case (Cons day_offset day_offsets)
  from Cons.prems(1) have cd:
    "add_micros start_time' (int day_offset * DAY) = Inr (start_time' + int day_offset * DAY)"
    by (auto simp: ebind_Inr_iff add_micros_def split: if_splits)
  show ?case
  proof (cases "weekday (start_time' + int day_offset * DAY)
             \<in> set (get_or (preferred_days prefs) [0, 1, 2, 3, 4])")
    case False
    with Cons.prems(1) cd
    have "days_loop prefs study_duration busy_times start_time' day_offsets = Inr slots"
      by simp
    from Cons.IH [OF this Cons.prems(2)] show ?thesis by auto
  next
    case True
    with Cons.prems(1) cd obtain today rest where
      hl: "hours_loop prefs study_duration busy_times (start_time' + int day_offset * DAY)
             (get_or (preferred_study_hours prefs) [9, 14, 19]) = Inr today"
      and dl: "days_loop prefs study_duration busy_times start_time' day_offsets = Inr rest"
      and sl: "slots = today @ rest"
      by (auto simp: ebind_Inr_iff)
    from Cons.prems(2) sl consider (here) "s \<in> set today" | (later) "s \<in> set rest"
      by auto
    then show ?thesis
    proof cases
      case here
      from hours_loop_slots [OF hl here] True show ?thesis by auto
    next
      case later
      from Cons.IH [OF dl later] show ?thesis by auto
    qed
  qed
qed


lemma find_optimal_slots:
  assumes "find_optimal_study_times g fetch fi now prefs study_duration days_ahead = Inr slots"
    and "s \<in> set slots"
  shows "\<exists>day_offset hour. int day_offset < days_ahead
           \<and> weekday (now + int day_offset * DAY)
                \<in> set (get_or (preferred_days prefs) [0, 1, 2, 3, 4])
           \<and> hour \<in> set (get_or (preferred_study_hours prefs) [9, 14, 19])
           \<and> made_slot prefs study_duration
                (busy_times_of fi (get_all_events g fetch fi (get_or (ical_urls prefs) [])
                   (Naive now) (Naive (now + days_ahead * DAY))))
                (now + int day_offset * DAY) hour s"
proof -
  from assms(1) obtain available where
    en: "add_micros now (days_ahead * DAY) = Inr (now + days_ahead * DAY)"
    and dl: "days_loop prefs study_duration
               (busy_times_of fi (get_all_events g fetch fi (get_or (ical_urls prefs) [])
                   (Naive now) (Naive (now + days_ahead * DAY))))
               now [0..<nat days_ahead] = Inr available"
    and sl: "slots = take 10 (sort_key (\<lambda>x. - confidence_score x) available)"
    by (auto simp: find_optimal_study_times_def Let_def ebind_Inr_iff add_micros_def
        split: if_splits)
  from assms(2) sl have "s \<in> set (sort_key (\<lambda>x. - confidence_score x) available)"
    by (auto dest: in_set_takeD)
  then have "s \<in> set available" by simp
  from days_loop_slots [OF dl this] obtain day_offset hour where
    d: "day_offset \<in> set [0..<nat days_ahead]"
    and rest: "weekday (now + int day_offset * DAY)
                \<in> set (get_or (preferred_days prefs) [0, 1, 2, 3, 4])"
      "hour \<in> set (get_or (preferred_study_hours prefs) [9, 14, 19])"
      "made_slot prefs study_duration
                (busy_times_of fi (get_all_events g fetch fi (get_or (ical_urls prefs) [])
                   (Naive now) (Naive (now + days_ahead * DAY))))
                (now + int day_offset * DAY) hour s"
    by blast
  from d have "int day_offset < days_ahead" by simp
  with rest show ?thesis by blast
qed


text \<open>Two runs of \<^verbatim>\<open>find_optimal_study_times\<close>, on Wednesday 2026-11-04.\<close>

lemmas scheduler_defs =
  find_optimal_study_times_def get_all_events_def get_google_events_def google_time_def
  busy_times_of_def busy_time_def replace_Z_def add_micros_def in_range_def DAY_def HOUR_def
  MINUTE_def MAXORDINAL_def weekday_def replace_hour_def overlaps_def stamp_gt_def
  calculate_confidence_score_def hour_of_def suggest_subject_def get_or_def ebind_def Let_def

lemma example_run_lecture:
  "find_optimal_study_times
     (Some (\<lambda>window_start window_end.
        Inr [\<lparr>summary = Some ''Lecture'',
              gstart = Some \<lparr>dateTime = Some ''2026-11-04T10:00:00'', date = None\<rparr>,
              gend = Some \<lparr>dateTime = Some ''2026-11-04T11:00:00'', date = None\<rparr>,
              gdescription = None\<rparr>]))
     (\<lambda>url. Inl RequestError)
     [''2026-11-04T10:00:00'' \<mapsto> Naive (739923 * DAY + 10 * HOUR),
      ''2026-11-04T11:00:00'' \<mapsto> Naive (739923 * DAY + 11 * HOUR)]
     (739923 * DAY + 8 * HOUR)
     \<lparr>ical_urls = None, preferred_study_hours = Some [9, 14], preferred_days = None,
       morning_preference = None, midday_preference = None, afternoon_preference = None,
       evening_preference = None, subjects = None\<rparr>
     120 1
   = Inr [\<lparr>start_time = 739923 * DAY + 14 * HOUR, end_time = 739923 * DAY + 16 * HOUR,
           duration_minutes = 120, confidence_score = 0.8, subject = ''Science''\<rparr>]"
  by (simp add: scheduler_defs)


text \<open>
  C1. When \<^verbatim>\<open>find_optimal_study_times\<close> returns, no returned slot overlaps a busy
  interval read from the aggregated events: for each slot and each busy interval the
  test \<^verbatim>\<open>slot_start < busy_end and slot_end > busy_start\<close> evaluates to false, so a
  candidate for which it is true is never in the result.
\<close>

theorem returned_slots_avoid_busy_times:
  assumes "find_optimal_study_times google_service fetch fromisoformat now prefs
             study_duration days_ahead = Inr slots"
    and "s \<in> set slots"
    and "busy \<in> set (busy_times_of fromisoformat
           (get_all_events google_service fetch fromisoformat (get_or (ical_urls prefs) [])
              (Naive now) (Naive (now + days_ahead * DAY))))"
  shows "overlaps (start_time s) (end_time s) (fst busy) (snd busy) = Inr False
       \<and> (\<forall>busy_start busy_end. busy = (Naive busy_start, Naive busy_end) \<longrightarrow>
            \<not> (start_time s < busy_end \<and> end_time s > busy_start))"
proof -
  from find_optimal_slots [OF assms(1,2)] obtain day_offset hour where
    "made_slot prefs study_duration
       (busy_times_of fromisoformat
          (get_all_events google_service fetch fromisoformat (get_or (ical_urls prefs) [])
             (Naive now) (Naive (now + days_ahead * DAY))))
       (now + int day_offset * DAY) hour s"
    by blast
  then have "conflicts (start_time s) (end_time s)
       (busy_times_of fromisoformat
          (get_all_events google_service fetch fromisoformat (get_or (ical_urls prefs) [])
             (Naive now) (Naive (now + days_ahead * DAY)))) = Inr False"
    unfolding made_slot_def by blast
  from conflicts_False [OF this assms(3)]
  have free: "overlaps (start_time s) (end_time s) (fst busy) (snd busy) = Inr False" .
  then show ?thesis
    by (auto simp: overlaps_def stamp_gt_def split: if_splits)
qed

theorem returned_slots_avoid_busy_times_witness:
  "overlaps (739923 * DAY + 14 * HOUR) (739923 * DAY + 16 * HOUR)
     (Naive (739923 * DAY + 10 * HOUR)) (Naive (739923 * DAY + 11 * HOUR)) = Inr False
   \<and> \<not> (739923 * DAY + 14 * HOUR < 739923 * DAY + 11 * HOUR
        \<and> 739923 * DAY + 16 * HOUR > 739923 * DAY + 10 * HOUR)"
proof -
  have busy: "(Naive (739923 * DAY + 10 * HOUR), Naive (739923 * DAY + 11 * HOUR))
    \<in> set (busy_times_of
         [''2026-11-04T10:00:00'' \<mapsto> Naive (739923 * DAY + 10 * HOUR),
          ''2026-11-04T11:00:00'' \<mapsto> Naive (739923 * DAY + 11 * HOUR)]
         (get_all_events
            (Some (\<lambda>window_start window_end.
               Inr [\<lparr>summary = Some ''Lecture'',
                     gstart = Some \<lparr>dateTime = Some ''2026-11-04T10:00:00'', date = None\<rparr>,
                     gend = Some \<lparr>dateTime = Some ''2026-11-04T11:00:00'', date = None\<rparr>,
                     gdescription = None\<rparr>]))
            (\<lambda>url. Inl RequestError)
            [''2026-11-04T10:00:00'' \<mapsto> Naive (739923 * DAY + 10 * HOUR),
             ''2026-11-04T11:00:00'' \<mapsto> Naive (739923 * DAY + 11 * HOUR)]
            (get_or (ical_urls
               \<lparr>ical_urls = None, preferred_study_hours = Some [9, 14], preferred_days = None,
                 morning_preference = None, midday_preference = None,
                 afternoon_preference = None, evening_preference = None, subjects = None\<rparr>) [])
            (Naive (739923 * DAY + 8 * HOUR)) (Naive (739923 * DAY + 8 * HOUR + 1 * DAY))))"
    by (simp add: scheduler_defs)
  from returned_slots_avoid_busy_times [OF example_run_lecture _ busy]
  show ?thesis by simp
qed




text \<open>
  C6. Every slot returned by \<^verbatim>\<open>find_optimal_study_times\<close> has the confidence score
  \<open>min (w + 0.2) 1\<close>, where \<open>w\<close> is the time-of-day weight chosen by the slot's hour
  (6 to 9 morning, 10 to 14 midday, 15 to 18 afternoon, otherwise evening): the bonus for
  a preferred day is always added. When the four weights lie between 0 and 1, so does the
  score.
\<close>

theorem returned_scores:
  assumes "find_optimal_study_times google_service fetch fromisoformat now prefs
             study_duration days_ahead = Inr slots"
    and "s \<in> set slots"
  shows "confidence_score s =
           min ((if 6 \<le> hour_of (start_time s) \<and> hour_of (start_time s) \<le> 9
                 then get_or (morning_preference prefs) 0.8
                 else if 10 \<le> hour_of (start_time s) \<and> hour_of (start_time s) \<le> 14
                 then get_or (midday_preference prefs) 0.6
                 else if 15 \<le> hour_of (start_time s) \<and> hour_of (start_time s) \<le> 18
                 then get_or (afternoon_preference prefs) 0.7
                 else get_or (evening_preference prefs) 0.5) + 0.2) 1.0
       \<and> (0 \<le> get_or (morning_preference prefs) 0.8 \<and> get_or (morning_preference prefs) 0.8 \<le> 1
          \<and> 0 \<le> get_or (midday_preference prefs) 0.6 \<and> get_or (midday_preference prefs) 0.6 \<le> 1
          \<and> 0 \<le> get_or (afternoon_preference prefs) 0.7 \<and> get_or (afternoon_preference prefs) 0.7 \<le> 1
          \<and> 0 \<le> get_or (evening_preference prefs) 0.5 \<and> get_or (evening_preference prefs) 0.5 \<le> 1
          \<longrightarrow> 0 \<le> confidence_score s \<and> confidence_score s \<le> 1)"
proof -
  from find_optimal_slots [OF assms] obtain day_offset hour where
    wd: "weekday (now + int day_offset * DAY)
           \<in> set (get_or (preferred_days prefs) [0, 1, 2, 3, 4])"
    and h: "0 \<le> hour" "hour \<le> 23"
    and st: "start_time s = (now + int day_offset * DAY)
               - (now + int day_offset * DAY) mod DAY + hour * HOUR"
    and sc: "confidence_score s = calculate_confidence_score (start_time s) prefs"
    by (auto simp: made_slot_def)
  have "weekday (start_time s) = weekday (now + int day_offset * DAY)"
    unfolding st by (rule day_floor(4) [OF h])
  with wd have pd: "weekday (start_time s) \<in> set (get_or (preferred_days prefs) [0, 1, 2, 3, 4])"
    by simp
  have eq: "confidence_score s =
           min ((if 6 \<le> hour_of (start_time s) \<and> hour_of (start_time s) \<le> 9
                 then get_or (morning_preference prefs) 0.8
                 else if 10 \<le> hour_of (start_time s) \<and> hour_of (start_time s) \<le> 14
                 then get_or (midday_preference prefs) 0.6
                 else if 15 \<le> hour_of (start_time s) \<and> hour_of (start_time s) \<le> 18
                 then get_or (afternoon_preference prefs) 0.7
                 else get_or (evening_preference prefs) 0.5) + 0.2) 1.0"
    unfolding sc calculate_confidence_score_def Let_def using pd by simp
  show ?thesis
  proof (intro conjI impI)
    show "confidence_score s =
           min ((if 6 \<le> hour_of (start_time s) \<and> hour_of (start_time s) \<le> 9
                 then get_or (morning_preference prefs) 0.8
                 else if 10 \<le> hour_of (start_time s) \<and> hour_of (start_time s) \<le> 14
                 then get_or (midday_preference prefs) 0.6
                 else if 15 \<le> hour_of (start_time s) \<and> hour_of (start_time s) \<le> 18
                 then get_or (afternoon_preference prefs) 0.7
                 else get_or (evening_preference prefs) 0.5) + 0.2) 1.0"
      by (rule eq)
  next
    assume w: "0 \<le> get_or (morning_preference prefs) 0.8 \<and> get_or (morning_preference prefs) 0.8 \<le> 1
          \<and> 0 \<le> get_or (midday_preference prefs) 0.6 \<and> get_or (midday_preference prefs) 0.6 \<le> 1
          \<and> 0 \<le> get_or (afternoon_preference prefs) 0.7 \<and> get_or (afternoon_preference prefs) 0.7 \<le> 1
          \<and> 0 \<le> get_or (evening_preference prefs) 0.5 \<and> get_or (evening_preference prefs) 0.5 \<le> 1"
    then show "0 \<le> confidence_score s" unfolding eq by (simp add: min_def)
    show "confidence_score s \<le> 1" unfolding eq by simp
  qed
qed


theorem returned_scores_witness:
  "(0.8::real) = min (0.6 + 0.2) 1.0 \<and> 0 \<le> (0.8::real) \<and> (0.8::real) \<le> 1"
  using returned_scores [OF example_run_lecture,
    of "\<lparr>start_time = 739923 * DAY + 14 * HOUR, end_time = 739923 * DAY + 16 * HOUR,
           duration_minutes = 120, confidence_score = 0.8, subject = ''Science''\<rparr>"]
  by (simp add: hour_of_def DAY_def HOUR_def get_or_def)

section \<open>The scheduler without subjects\<close>

lemma no_subjects:
  "subjects prefs = Some [] \<Longrightarrow> suggest_subject t prefs = Inl ZeroDivisionError"
  by (simp add: suggest_subject_def get_or_def)

lemma hours_loop_fails:
  assumes "subjects prefs = Some []"
    and "hour \<in> set hours"
    and "replace_hour current_date hour = Inr slot_start"
    and "add_micros slot_start (study_duration * MINUTE) = Inr slot_end"
    and "conflicts slot_start slot_end busy_times = Inr False"
  shows "\<exists>e. hours_loop prefs study_duration busy_times current_date hours = Inl e"
  using assms(2)
proof (induction hours)
  case Nil
  then show ?case by simp
next
  case (Cons h hours)
  show ?case
  proof (cases "h = hour")
    case True
    then show ?thesis
      using assms(1,3,4,5) by (simp add: no_subjects)
  next
    case False
    with Cons have rest:
      "\<exists>e. hours_loop prefs study_duration busy_times current_date hours = Inl e"
      by simp
    then show ?thesis
      by (auto simp: ebind_def no_subjects [OF assms(1)] split: sum.splits)
  qed
qed

lemma days_loop_fails:
  assumes "subjects prefs = Some []"
    and "day_offset \<in> set day_offsets"
    and "weekday (start_time' + int day_offset * DAY)
           \<in> set (get_or (preferred_days prefs) [0, 1, 2, 3, 4])"
    and "hour \<in> set (get_or (preferred_study_hours prefs) [9, 14, 19])"
    and "replace_hour (start_time' + int day_offset * DAY) hour = Inr slot_start"
    and "add_micros slot_start (study_duration * MINUTE) = Inr slot_end"
    and "conflicts slot_start slot_end busy_times = Inr False"
  shows "\<exists>e. days_loop prefs study_duration busy_times start_time' day_offsets = Inl e"
  using assms(2)
proof (induction day_offsets)
  case Nil
  then show ?case by simp
next
  case (Cons d day_offsets)
  show ?case
  proof (cases "d = day_offset")
    case True
    from hours_loop_fails [OF assms(1,4,5,6,7)] obtain e where
      "hours_loop prefs study_duration busy_times (start_time' + int day_offset * DAY)
         (get_or (preferred_study_hours prefs) [9, 14, 19]) = Inl e"
      by blast
    then show ?thesis
      using True assms(3) by (auto simp: ebind_def add_micros_def split: sum.splits)
  next
    case False
    with Cons have
      "\<exists>e. days_loop prefs study_duration busy_times start_time' day_offsets = Inl e"
      by simp
    then show ?thesis
      by (auto simp: ebind_def split: sum.splits)
  qed
qed

text \<open>
  C10. With the \<^verbatim>\<open>subjects\<close> entry of the preferences the empty list, a call of
  \<^verbatim>\<open>find_optimal_study_times\<close> in which a candidate slot (a day offset below the
  horizon on a preferred day, a preferred hour) passes the conflict check does not
  return: the subject suggestion for that slot raises ZeroDivisionError, and the call
  ends with an exception.
\<close>

theorem empty_subjects_raise:
  assumes "subjects prefs = Some []"
    and "int day_offset < days_ahead"
    and "weekday (now + int day_offset * DAY)
           \<in> set (get_or (preferred_days prefs) [0, 1, 2, 3, 4])"
    and "hour \<in> set (get_or (preferred_study_hours prefs) [9, 14, 19])"
    and "replace_hour (now + int day_offset * DAY) hour = Inr slot_start"
    and "add_micros slot_start (study_duration * MINUTE) = Inr slot_end"
    and "conflicts slot_start slot_end
           (busy_times_of fromisoformat
              (get_all_events google_service fetch fromisoformat (get_or (ical_urls prefs) [])
                 (Naive now) (Naive (now + days_ahead * DAY)))) = Inr False"
  shows "suggest_subject slot_start prefs = Inl ZeroDivisionError
       \<and> (\<exists>e. find_optimal_study_times google_service fetch fromisoformat now prefs
                 study_duration days_ahead = Inl e)"
proof
  show "suggest_subject slot_start prefs = Inl ZeroDivisionError"
    by (rule no_subjects [OF assms(1)])
next
  from assms(2) have "day_offset \<in> set [0..<nat days_ahead]" by simp
  from days_loop_fails [OF assms(1) this assms(3,4,5,6,7)] obtain e where
    "days_loop prefs study_duration
       (busy_times_of fromisoformat
          (get_all_events google_service fetch fromisoformat (get_or (ical_urls prefs) [])
             (Naive now) (Naive (now + days_ahead * DAY))))
       now [0..<nat days_ahead] = Inl e"
    by blast
  then show "\<exists>e. find_optimal_study_times google_service fetch fromisoformat now prefs
                 study_duration days_ahead = Inl e"
    by (simp add: find_optimal_study_times_def Let_def ebind_def add_micros_def
        split: sum.splits)
qed


theorem empty_subjects_raise_witness:
  "suggest_subject (739923 * DAY + 9 * HOUR)
     \<lparr>ical_urls = None, preferred_study_hours = None, preferred_days = None,
       morning_preference = None, midday_preference = None, afternoon_preference = None,
       evening_preference = None, subjects = Some []\<rparr> = Inl ZeroDivisionError
   \<and> (\<exists>e. find_optimal_study_times None (\<lambda>url. Inl RequestError) Map.empty
          (739923 * DAY + 8 * HOUR)
          \<lparr>ical_urls = None, preferred_study_hours = None, preferred_days = None,
            morning_preference = None, midday_preference = None, afternoon_preference = None,
            evening_preference = None, subjects = Some []\<rparr>
          120 7 = Inl e)"
proof -
  let ?prefs = "\<lparr>ical_urls = None, preferred_study_hours = None, preferred_days = None,
       morning_preference = None, midday_preference = None, afternoon_preference = None,
       evening_preference = None, subjects = Some []\<rparr>"
  have a1: "subjects ?prefs = Some []" by simp
  have a2: "int 0 < 7" by simp
  have a3: "weekday (739923 * DAY + 8 * HOUR + int 0 * DAY)
              \<in> set (get_or (preferred_days ?prefs) [0, 1, 2, 3, 4])"
    by (simp add: weekday_def DAY_def HOUR_def get_or_def)
  have a4: "9 \<in> set (get_or (preferred_study_hours ?prefs) [9, 14, 19])"
    by (simp add: get_or_def)
  have a5: "replace_hour (739923 * DAY + 8 * HOUR + int 0 * DAY) 9 = Inr (739923 * DAY + 9 * HOUR)"
    by (simp add: replace_hour_def DAY_def HOUR_def)
  have a6: "add_micros (739923 * DAY + 9 * HOUR) (120 * MINUTE) = Inr (739923 * DAY + 11 * HOUR)"
    by (simp add: add_micros_def in_range_def MAXORDINAL_def DAY_def HOUR_def MINUTE_def)
  have a7: "conflicts (739923 * DAY + 9 * HOUR) (739923 * DAY + 11 * HOUR)
           (busy_times_of Map.empty
              (get_all_events None (\<lambda>url. Inl RequestError) Map.empty
                 (get_or (ical_urls ?prefs) [])
                 (Naive (739923 * DAY + 8 * HOUR)) (Naive (739923 * DAY + 8 * HOUR + 7 * DAY))))
            = Inr False"
    by (simp add: get_or_def get_all_events_def get_google_events_def busy_times_of_def)
  from empty_subjects_raise [OF a1 a2 a3 a4 a5 a6 a7]
  show ?thesis .
qed

section \<open>Properties of the work-description planner\<close>

lemma pset_lower:
  "lower ''I need to finish my pset on calculus'' = ''i need to finish my pset on calculus''"
  by code_simp

lemma pset_type:
  "study_type_and_duration ''i need to finish my pset on calculus'' = (''Problem Set'', 180)"
  by (simp add: study_type_and_duration_def any_in_def)

lemma pset_subject:
  "subject_of_work ''i need to finish my pset on calculus'' = ''Mathematics''"
  by (simp add: subject_of_work_def any_in_def)

lemma midnight_bounds:
  assumes "0 \<le> t" and "t < (MAXORDINAL - k) * DAY"
  shows "0 \<le> t - t mod DAY" and "t - t mod DAY \<le> (MAXORDINAL - k - 1) * DAY"
proof -
  have eq: "t - t mod DAY = (t div DAY) * DAY"
    by (simp add: minus_mod_eq_mult_div algebra_simps)
  have "0 \<le> t div DAY" using assms(1) by (simp add: DAY_def pos_imp_zdiv_nonneg_iff)
  then show "0 \<le> t - t mod DAY" unfolding eq by (simp add: DAY_def)
  have "t div DAY < MAXORDINAL - k"
    using assms(2) by (simp add: DAY_def div_less_iff_less_mult)
  then have "t div DAY \<le> MAXORDINAL - k - 1" by simp
  then have "(t div DAY) * DAY \<le> (MAXORDINAL - k - 1) * DAY"
    by (simp add: DAY_def)
  then show "t - t mod DAY \<le> (MAXORDINAL - k - 1) * DAY" unfolding eq .
qed

text \<open>
  C9. The study type and duration of a work description are those of the first matching
  rule of the ordered table, the default when none matches. For the description
  "I need to finish my pset on calculus" the type is "Problem Set", the subject
  "Mathematics" and the duration 180 minutes, and the planner returns exactly one session,
  of 180 minutes, starting today at the first preferred hour (an hour of the day, 0 to 23;
  the clock at least a day before the end of year 9999).
\<close>

theorem pset_on_calculus:
  assumes "get_or (preferred_study_hours prefs) [9, 14, 19] = hour # hours"
    and "0 \<le> hour" and "hour \<le> 23"
    and "0 \<le> clock 0" and "clock 0 < (MAXORDINAL - 1) * DAY"
  shows "(\<forall>text. study_type_and_duration text =
             spec_first_match spec_type_rules (''General Study'', 120) text)
       \<and> study_type_and_duration (lower ''I need to finish my pset on calculus'') =
           (''Problem Set'', 180)
       \<and> subject_of_work (lower ''I need to finish my pset on calculus'') = ''Mathematics''
       \<and> suggest_study_sessions_from_work clock ''I need to finish my pset on calculus'' prefs =
           Inr [\<lparr>start_time = clock 0 - clock 0 mod DAY + hour * HOUR,
                 end_time = clock 0 - clock 0 mod DAY + hour * HOUR + 180 * MINUTE,
                 duration_minutes = 180, confidence_score = 0.9,
                 subject = ''Mathematics'',
                 title = ''Problem Set - Mathematics'',
                 description = ''Study session for: I need to finish my pset on calculus'',
                 type' = ''Problem Set''\<rparr>]"
proof (intro conjI allI)
  fix w
  show "study_type_and_duration w = spec_first_match spec_type_rules (''General Study'', 120) w"
    by (simp add: study_type_and_duration_def spec_type_rules_def)
next
  show "study_type_and_duration (lower ''I need to finish my pset on calculus'') =
           (''Problem Set'', 180)"
    by (simp only: pset_lower pset_type)
next
  show "subject_of_work (lower ''I need to finish my pset on calculus'') = ''Mathematics''"
    by (simp only: pset_lower pset_subject)
next
  from midnight_bounds [of "clock 0" 1] assms(4,5)
  have m: "0 \<le> clock 0 - clock 0 mod DAY" "clock 0 - clock 0 mod DAY \<le> (MAXORDINAL - 2) * DAY"
    by simp_all
  have h: "0 \<le> hour * HOUR" "hour * HOUR \<le> 23 * HOUR"
    using assms(2,3) by (simp_all add: HOUR_def)
  have "in_range (clock 0 - clock 0 mod DAY + hour * HOUR + 180 * MINUTE)"
    using m h by (simp add: in_range_def MAXORDINAL_def DAY_def HOUR_def MINUTE_def)
  then show "suggest_study_sessions_from_work clock ''I need to finish my pset on calculus'' prefs =
           Inr [\<lparr>start_time = clock 0 - clock 0 mod DAY + hour * HOUR,
                 end_time = clock 0 - clock 0 mod DAY + hour * HOUR + 180 * MINUTE,
                 duration_minutes = 180, confidence_score = 0.9,
                 subject = ''Mathematics'',
                 title = ''Problem Set - Mathematics'',
                 description = ''Study session for: I need to finish my pset on calculus'',
                 type' = ''Problem Set''\<rparr>]"
    using assms(1,2,3)
    by (simp add: suggest_study_sessions_from_work_def pset_lower pset_type pset_subject
        Let_def replace_hour_def add_micros_def ebind_def)
qed


theorem pset_on_calculus_witness:
  "suggest_study_sessions_from_work (\<lambda>i. 739923 * DAY + 15 * HOUR + 30 * MINUTE)
     ''I need to finish my pset on calculus''
     \<lparr>ical_urls = None, preferred_study_hours = Some [9, 14, 19], preferred_days = None,
       morning_preference = None, midday_preference = None, afternoon_preference = None,
       evening_preference = None, subjects = None\<rparr>
   = Inr [\<lparr>start_time = 739923 * DAY + 9 * HOUR,
           end_time = 739923 * DAY + 12 * HOUR,
           duration_minutes = 180, confidence_score = 0.9,
           subject = ''Mathematics'',
           title = ''Problem Set - Mathematics'',
           description = ''Study session for: I need to finish my pset on calculus'',
           type' = ''Problem Set''\<rparr>]"
  using pset_on_calculus [of
      "\<lparr>ical_urls = None, preferred_study_hours = Some [9, 14, 19], preferred_days = None,
        morning_preference = None, midday_preference = None, afternoon_preference = None,
        evening_preference = None, subjects = None\<rparr>"
      9 "[14, 19]" "\<lambda>i. 739923 * DAY + 15 * HOUR + 30 * MINUTE"]
  by (simp add: get_or_def DAY_def HOUR_def MINUTE_def MAXORDINAL_def)

lemma long_durations:
  "snd (study_type_and_duration w) > 180 \<Longrightarrow>
     snd (study_type_and_duration w) = 240 \<or> snd (study_type_and_duration w) = 200"
  by (auto simp: study_type_and_duration_def split: if_splits)

lemma parts_loop_map:
  assumes "hours \<noteq> []"
    and "\<forall>h \<in> set hours. 0 \<le> h \<and> h \<le> 23"
    and "\<forall>i \<in> set indices. 0 \<le> clock i \<and> clock i < (MAXORDINAL - 1 - int i) * DAY"
  shows "parts_loop clock hours study_type subject' work_description 120 indices =
           Inr (map (part clock hours study_type subject' work_description 120) indices)"
  using assms(3)
proof (induction indices)
  case Nil
  then show ?case by simp
next
  case (Cons i indices)
  have "i mod length hours < length hours" using assms(1) by simp
  then have "hours ! (i mod length hours) \<in> set hours" by simp
  with assms(2) have h: "0 \<le> hours ! (i mod length hours)" "hours ! (i mod length hours) \<le> 23"
    by auto
  from Cons.prems have c: "0 \<le> clock i" "clock i < (MAXORDINAL - int i - 1) * DAY"
    by (simp_all add: algebra_simps)
  from midnight_bounds [OF c(1), of "int i + 1"] c(2)
  have m: "0 \<le> clock i - clock i mod DAY"
    "clock i - clock i mod DAY \<le> (MAXORDINAL - (int i + 1) - 1) * DAY"
    by (simp_all add: algebra_simps)
  have hh: "0 \<le> hours ! (i mod length hours) * HOUR"
    "hours ! (i mod length hours) * HOUR \<le> 23 * HOUR"
    using h by (simp_all add: HOUR_def)
  have i0: "0 \<le> int i * DAY" by (simp add: DAY_def)
  have r1: "in_range (clock i - clock i mod DAY + hours ! (i mod length hours) * HOUR
                       + int i * DAY)"
    using m hh i0 unfolding in_range_def
    by (simp add: algebra_simps MAXORDINAL_def DAY_def HOUR_def)
  have r2: "in_range (clock i - clock i mod DAY + hours ! (i mod length hours) * HOUR
                       + int i * DAY + 120 * MINUTE)"
    using m hh i0 unfolding in_range_def
    by (simp add: algebra_simps MAXORDINAL_def DAY_def HOUR_def MINUTE_def)
  have rest: "parts_loop clock hours study_type subject' work_description 120 indices =
           Inr (map (part clock hours study_type subject' work_description 120) indices)"
    using Cons by simp
  show ?case
    using assms(1) h r1 r2 rest
    by (simp add: Let_def replace_hour_def add_micros_def ebind_def part_def)
qed


lemma part_day:
  assumes "0 \<le> h" "h \<le> 23"
  shows "(t - t mod DAY + h * HOUR + int i * DAY) div DAY = t div DAY + int i"
    and "(t - t mod DAY + h * HOUR + int i * DAY) mod DAY = h * HOUR"
proof -
  have eq: "t - t mod DAY = DAY * (t div DAY)"
    by (simp add: minus_mod_eq_mult_div)
  have r: "0 \<le> h * HOUR" "h * HOUR < DAY"
    using assms by (simp_all add: HOUR_def DAY_def)
  have nz: "DAY \<noteq> 0" by (simp add: DAY_def)
  show "(t - t mod DAY + h * HOUR + int i * DAY) div DAY = t div DAY + int i"
    unfolding eq using r nz by simp
  show "(t - t mod DAY + h * HOUR + int i * DAY) mod DAY = h * HOUR"
    unfolding eq using r nz by simp
qed

text \<open>
  C5. For a work description classified with more than 180 minutes and a non-empty list
  of preferred hours (hours of the day, 0 to 23; the clock at least two days before the
  end of year 9999), the planner returns \<open>max 2 (duration div 120)\<close> sessions. Session
  \<open>i\<close> lasts 120 minutes, starts \<open>i\<close> days after the day the clock shows in pass \<open>i\<close>,
  at the preferred hour of index \<open>i mod length hours\<close> with minutes and seconds zero, is
  titled "type - subject (Part i+1)" and has confidence score 0.8. The witness is the
  exam description with preferred hours 9 and 14: two sessions, at 9 and at 14 on
  successive days.
\<close>

theorem long_work_is_split:
  assumes "snd (study_type_and_duration (lower work_description)) > 180"
    and "get_or (preferred_study_hours prefs) [9, 14, 19] = hours"
    and "hours \<noteq> []"
    and "\<forall>h \<in> set hours. 0 \<le> h \<and> h \<le> 23"
    and "\<forall>i. 0 \<le> clock i \<and> clock i < (MAXORDINAL - 2) * DAY"
  shows "\<exists>sessions.
           suggest_study_sessions_from_work clock work_description prefs = Inr sessions
         \<and> int (length sessions) =
             max 2 (snd (study_type_and_duration (lower work_description)) div 120)
         \<and> (\<forall>i < length sessions.
              duration_minutes (sessions ! i) = 120
            \<and> start_time (sessions ! i) div DAY = clock i div DAY + int i
            \<and> start_time (sessions ! i) mod DAY = hours ! (i mod length hours) * HOUR
            \<and> end_time (sessions ! i) = start_time (sessions ! i) + 120 * MINUTE
            \<and> title (sessions ! i) =
                fst (study_type_and_duration (lower work_description)) @ '' - ''
                @ subject_of_work (lower work_description)
                @ '' (Part '' @ str_nat (i + 1) @ '')''
            \<and> confidence_score (sessions ! i) = 0.8)"
proof -
  let ?ty = "fst (study_type_and_duration (lower work_description))"
  let ?su = "subject_of_work (lower work_description)"
  let ?n = "nat (max 2 (snd (study_type_and_duration (lower work_description)) div 120))"
  let ?sessions = "map (part clock hours ?ty ?su work_description 120) [0..<?n]"
  from long_durations [OF assms(1)]
  have two: "max 2 (snd (study_type_and_duration (lower work_description)) div 120) = 2"
    by auto
  have clocks: "\<forall>i \<in> set [0..<?n]. 0 \<le> clock i \<and> clock i < (MAXORDINAL - 1 - int i) * DAY"
  proof
    fix i assume "i \<in> set [0..<?n]"
    then have "int i \<le> 1" unfolding two by simp
    then have "(MAXORDINAL - 2) * DAY \<le> (MAXORDINAL - 1 - int i) * DAY"
      by (simp add: DAY_def)
    with assms(5) show "0 \<le> clock i \<and> clock i < (MAXORDINAL - 1 - int i) * DAY"
      by (meson less_le_trans)
  qed
  have run: "suggest_study_sessions_from_work clock work_description prefs = Inr ?sessions"
    using assms(1,2) parts_loop_map [OF assms(3,4) clocks]
    by (simp add: suggest_study_sessions_from_work_def Let_def)
  have len: "int (length ?sessions) =
      max 2 (snd (study_type_and_duration (lower work_description)) div 120)"
    unfolding two by simp
  have each: "\<forall>i < length ?sessions.
              duration_minutes (?sessions ! i) = 120
            \<and> start_time (?sessions ! i) div DAY = clock i div DAY + int i
            \<and> start_time (?sessions ! i) mod DAY = hours ! (i mod length hours) * HOUR
            \<and> end_time (?sessions ! i) = start_time (?sessions ! i) + 120 * MINUTE
            \<and> title (?sessions ! i) = ?ty @ '' - '' @ ?su @ '' (Part '' @ str_nat (i + 1) @ '')''
            \<and> confidence_score (?sessions ! i) = 0.8"
  proof (intro allI impI)
    fix i assume "i < length ?sessions"
    then have nth: "?sessions ! i = part clock hours ?ty ?su work_description 120 i"
      by simp
    have "i mod length hours < length hours" using assms(3) by simp
    then have "hours ! (i mod length hours) \<in> set hours" by simp
    with assms(4) have h: "0 \<le> hours ! (i mod length hours)" "hours ! (i mod length hours) \<le> 23"
      by auto
    show "duration_minutes (?sessions ! i) = 120
            \<and> start_time (?sessions ! i) div DAY = clock i div DAY + int i
            \<and> start_time (?sessions ! i) mod DAY = hours ! (i mod length hours) * HOUR
            \<and> end_time (?sessions ! i) = start_time (?sessions ! i) + 120 * MINUTE
            \<and> title (?sessions ! i) = ?ty @ '' - '' @ ?su @ '' (Part '' @ str_nat (i + 1) @ '')''
            \<and> confidence_score (?sessions ! i) = 0.8"
      unfolding nth part_def using part_day [OF h] by simp
  qed
  from run len each show ?thesis by blast
qed


lemma exam_lower: "lower ''Physics exam'' = ''physics exam''"
  by code_simp

lemma exam_type: "study_type_and_duration ''physics exam'' = (''Exam Preparation'', 240)"
  by (simp add: study_type_and_duration_def any_in_def)

lemma exam_subject: "subject_of_work ''physics exam'' = ''Science''"
  by (simp add: subject_of_work_def any_in_def)

lemma part_numbers: "str_nat (0 + 1) = ''1''" "str_nat (1 + 1) = ''2''"
  by code_simp+

theorem long_work_is_split_witness:
  "\<exists>sessions.
     suggest_study_sessions_from_work (\<lambda>i. 739923 * DAY + 15 * HOUR) ''Physics exam''
       \<lparr>ical_urls = None, preferred_study_hours = Some [9, 14], preferred_days = None,
         morning_preference = None, midday_preference = None, afternoon_preference = None,
         evening_preference = None, subjects = None\<rparr> = Inr sessions
     \<and> length sessions = 2
     \<and> start_time (sessions ! 0) div DAY = 739923
     \<and> start_time (sessions ! 0) mod DAY = 9 * HOUR
     \<and> start_time (sessions ! 1) div DAY = 739924
     \<and> start_time (sessions ! 1) mod DAY = 14 * HOUR
     \<and> duration_minutes (sessions ! 0) = 120 \<and> duration_minutes (sessions ! 1) = 120
     \<and> title (sessions ! 0) = ''Exam Preparation - Science (Part 1)''
     \<and> title (sessions ! 1) = ''Exam Preparation - Science (Part 2)''
     \<and> confidence_score (sessions ! 0) = 0.8 \<and> confidence_score (sessions ! 1) = 0.8"
proof -
  have long: "snd (study_type_and_duration (lower ''Physics exam'')) > 180"
    by (simp add: exam_lower exam_type)
  have hours: "get_or (preferred_study_hours
       \<lparr>ical_urls = None, preferred_study_hours = Some [9, 14], preferred_days = None,
         morning_preference = None, midday_preference = None, afternoon_preference = None,
         evening_preference = None, subjects = None\<rparr>) [9, 14, 19] = [9, 14]"
    by (simp add: get_or_def)
  have valid: "\<forall>h \<in> set [9, 14 :: int]. 0 \<le> h \<and> h \<le> 23" by simp
  have clock: "\<forall>i::nat. 0 \<le> 739923 * DAY + 15 * HOUR
                 \<and> 739923 * DAY + 15 * HOUR < (MAXORDINAL - 2) * DAY"
    by (simp add: DAY_def HOUR_def MAXORDINAL_def)
  from long_work_is_split [OF long hours _ valid, of "\<lambda>i. 739923 * DAY + 15 * HOUR"] clock
  obtain sessions where
    run: "suggest_study_sessions_from_work (\<lambda>i. 739923 * DAY + 15 * HOUR) ''Physics exam''
       \<lparr>ical_urls = None, preferred_study_hours = Some [9, 14], preferred_days = None,
         morning_preference = None, midday_preference = None, afternoon_preference = None,
         evening_preference = None, subjects = None\<rparr> = Inr sessions"
    and len: "int (length sessions) = max 2 (snd (study_type_and_duration (lower ''Physics exam'')) div 120)"
    and each: "\<forall>i < length sessions.
              duration_minutes (sessions ! i) = 120
            \<and> start_time (sessions ! i) div DAY = (739923 * DAY + 15 * HOUR) div DAY + int i
            \<and> start_time (sessions ! i) mod DAY = [9, 14] ! (i mod length [9, 14 :: int]) * HOUR
            \<and> end_time (sessions ! i) = start_time (sessions ! i) + 120 * MINUTE
            \<and> title (sessions ! i) =
                fst (study_type_and_duration (lower ''Physics exam'')) @ '' - ''
                @ subject_of_work (lower ''Physics exam'')
                @ '' (Part '' @ str_nat (i + 1) @ '')''
            \<and> confidence_score (sessions ! i) = 0.8"
    by auto
  from len have l2: "length sessions = 2"
    by (simp add: exam_lower exam_type)
  have d: "(739923 * DAY + 15 * HOUR) div DAY = 739923"
    by (simp add: DAY_def HOUR_def)
  from each l2 have e0: "duration_minutes (sessions ! 0) = 120
            \<and> start_time (sessions ! 0) div DAY = 739923
            \<and> start_time (sessions ! 0) mod DAY = 9 * HOUR
            \<and> title (sessions ! 0) = ''Exam Preparation - Science (Part 1)''
            \<and> confidence_score (sessions ! 0) = 0.8"
    using part_numbers(1) by (simp add: exam_lower exam_type exam_subject d)
  have "(1::nat) < 2" by simp
  with each l2 have "duration_minutes (sessions ! 1) = 120
            \<and> start_time (sessions ! 1) div DAY = (739923 * DAY + 15 * HOUR) div DAY + int 1
            \<and> start_time (sessions ! 1) mod DAY = [9, 14] ! (1 mod length [9, 14 :: int]) * HOUR
            \<and> title (sessions ! 1) =
                fst (study_type_and_duration (lower ''Physics exam'')) @ '' - ''
                @ subject_of_work (lower ''Physics exam'')
                @ '' (Part '' @ str_nat (1 + 1) @ '')''
            \<and> confidence_score (sessions ! 1) = 0.8"
    by metis
  then have e1: "duration_minutes (sessions ! 1) = 120
            \<and> start_time (sessions ! 1) div DAY = 739924
            \<and> start_time (sessions ! 1) mod DAY = 14 * HOUR
            \<and> title (sessions ! 1) = ''Exam Preparation - Science (Part 2)''
            \<and> confidence_score (sessions ! 1) = 0.8"
    unfolding part_numbers(2) by (simp add: exam_lower exam_type exam_subject d)
  from run l2 e0 e1 show ?thesis by blast
qed

end
